theory Spec2Isabelle
  imports Complex_Main
begin

section \<open>Python values\<close>

subsection \<open>Floats\<close>

text \<open>
  A Python \<^verbatim>\<open>float\<close> is an IEEE double.  The model keeps the three special values
  apart from the finite ones, because the request boundary lets an infinite income or debt
  through (\<^verbatim>\<open>ge=0\<close> holds of infinity) and the arithmetic of \<^verbatim>\<open>predict_risk\<close>
  can then produce a NaN.  A finite double is modelled by the real number it denotes and
  arithmetic on finite values is exact: rounding to 53 bits is abstracted, and values are
  not bounded in magnitude (the overflow of a finite result, which in Python gives an
  infinity or, for \<^verbatim>\<open>**\<close> and for the conversion of a huge \<^verbatim>\<open>int\<close>, an
  \<^verbatim>\<open>OverflowError\<close>, is outside the model).  The two zeros are one value.
\<close>

datatype pyfloat = Fin real | PInf | NInf | NaN

datatype error = ZeroDivisionError

text \<open>Comparisons: every comparison with a NaN is false.\<close>

fun flt :: "pyfloat \<Rightarrow> pyfloat \<Rightarrow> bool" where
  "flt NaN y = False"
| "flt x NaN = False"
| "flt (Fin a) (Fin b) = (a < b)"
| "flt (Fin a) PInf = True"
| "flt (Fin a) NInf = False"
| "flt PInf y = False"
| "flt NInf NInf = False"
| "flt NInf y = True"

fun fle :: "pyfloat \<Rightarrow> pyfloat \<Rightarrow> bool" where
  "fle NaN y = False"
| "fle x NaN = False"
| "fle (Fin a) (Fin b) = (a \<le> b)"
| "fle (Fin a) PInf = True"
| "fle (Fin a) NInf = False"
| "fle PInf PInf = True"
| "fle PInf y = False"
| "fle NInf y = True"

definition fgt :: "pyfloat \<Rightarrow> pyfloat \<Rightarrow> bool" where
  "fgt x y = flt y x"

definition fge :: "pyfloat \<Rightarrow> pyfloat \<Rightarrow> bool" where
  "fge x y = fle y x"

text \<open>Unary minus, addition and multiplication never raise.\<close>

fun fneg :: "pyfloat \<Rightarrow> pyfloat" where
  "fneg (Fin a) = Fin (- a)"
| "fneg PInf = NInf"
| "fneg NInf = PInf"
| "fneg NaN = NaN"

fun fadd :: "pyfloat \<Rightarrow> pyfloat \<Rightarrow> pyfloat" where
  "fadd NaN y = NaN"
| "fadd x NaN = NaN"
| "fadd (Fin a) (Fin b) = Fin (a + b)"
| "fadd PInf NInf = NaN"
| "fadd NInf PInf = NaN"
| "fadd PInf y = PInf"
| "fadd NInf y = NInf"
| "fadd (Fin a) y = y"

fun fmul :: "pyfloat \<Rightarrow> pyfloat \<Rightarrow> pyfloat" where
  "fmul NaN y = NaN"
| "fmul x NaN = NaN"
| "fmul (Fin a) (Fin b) = Fin (a * b)"
| "fmul (Fin a) PInf = (if a = 0 then NaN else if 0 < a then PInf else NInf)"
| "fmul (Fin a) NInf = (if a = 0 then NaN else if 0 < a then NInf else PInf)"
| "fmul PInf (Fin b) = (if b = 0 then NaN else if 0 < b then PInf else NInf)"
| "fmul NInf (Fin b) = (if b = 0 then NaN else if 0 < b then NInf else PInf)"
| "fmul PInf PInf = PInf"
| "fmul PInf NInf = NInf"
| "fmul NInf PInf = NInf"
| "fmul NInf NInf = PInf"

text \<open>
  Division: \<^verbatim>\<open>float.__truediv__\<close> tests the divisor against zero first and raises
  \<^verbatim>\<open>ZeroDivisionError\<close>, whatever the dividend is.
\<close>

fun fdiv :: "pyfloat \<Rightarrow> pyfloat \<Rightarrow> error + pyfloat" where
  "fdiv x (Fin b) =
     (if b = 0 then Inl ZeroDivisionError
      else Inr (case x of
                  Fin a \<Rightarrow> Fin (a / b)
                | PInf \<Rightarrow> (if 0 < b then PInf else NInf)
                | NInf \<Rightarrow> (if 0 < b then NInf else PInf)
                | NaN \<Rightarrow> NaN))"
| "fdiv x NaN = Inr NaN"
| "fdiv (Fin a) y = Inr (Fin 0)"
| "fdiv x y = Inr NaN"

text \<open>
  \<^verbatim>\<open>b ** y\<close> for a finite base \<open>b > 1\<close>, the only use the program makes of the
  operator: a NaN exponent gives NaN, an infinite one gives infinity or zero.
\<close>

fun fpow :: "real \<Rightarrow> pyfloat \<Rightarrow> pyfloat" where
  "fpow b (Fin y) = Fin (b powr y)"
| "fpow b PInf = PInf"
| "fpow b NInf = Fin 0"
| "fpow b NaN = NaN"

text \<open>\<^verbatim>\<open>min(a, b)\<close> keeps its first argument unless the second is strictly smaller.\<close>

definition fmin :: "pyfloat \<Rightarrow> pyfloat \<Rightarrow> pyfloat" where
  "fmin a b = (if flt b a then b else a)"

text \<open>The conversion of an \<^verbatim>\<open>int\<close> operand in mixed arithmetic.\<close>

definition float_of_int :: "int \<Rightarrow> pyfloat" where
  "float_of_int n = Fin (of_int n)"

text \<open>
  \<^verbatim>\<open>round(x, 4)\<close>: the nearest multiple of \<open>10\<^sup>-\<^sup>4\<close>, a tie going to the even one;
  infinities and NaN are returned as they are.
\<close>

definition round_half_even :: "real \<Rightarrow> int" where
  "round_half_even x =
     (let n = \<lfloor>x\<rfloor>; d = x - of_int n
      in if d < 1 / 2 then n
         else if 1 / 2 < d then n + 1
         else if even n then n else n + 1)"

fun round4 :: "pyfloat \<Rightarrow> pyfloat" where
  "round4 (Fin x) = Fin (of_int (round_half_even (x * 10 ^ 4)) / 10 ^ 4)"
| "round4 PInf = PInf"
| "round4 NInf = NInf"
| "round4 NaN = NaN"

section \<open>The risk scorer\<close>

record RiskFeatures =
  income :: pyfloat
  debt :: pyfloat
  num_credit_lines :: int
  missed_payments :: int
  age :: int

text \<open>The constraints of the \<^verbatim>\<open>Field\<close> declarations of \<^verbatim>\<open>RiskFeatures\<close>.\<close>

definition valid_RiskFeatures :: "'a RiskFeatures_scheme \<Rightarrow> bool" where
  "valid_RiskFeatures f =
     (fge (income f) (Fin 0) \<and> fge (debt f) (Fin 0) \<and> 0 \<le> num_credit_lines f \<and>
      0 \<le> missed_payments f \<and> 18 \<le> age f \<and> age f \<le> 100)"

record EchoedFeatures =
  dti_out :: pyfloat
  age_out :: int
  num_credit_lines_out :: int
  missed_payments_out :: int

record RiskScoreResult =
  risk_probability :: pyfloat
  category :: string
  features :: EchoedFeatures

text \<open>The local variables of \<^verbatim>\<open>predict_risk\<close>, in the order the body assigns them.\<close>

definition dti :: "'a RiskFeatures_scheme \<Rightarrow> error + pyfloat" where
  "dti f =
     (if fgt (income f) (Fin 0) then fdiv (debt f) (fadd (income f) (Fin (1 / 10 ^ 6)))
      else Inr (Fin 10))"

definition payment_penalty :: "'a RiskFeatures_scheme \<Rightarrow> pyfloat" where
  "payment_penalty f = fmin (fmul (float_of_int (missed_payments f)) (Fin 0.25)) (Fin 3)"

definition credit_util_penalty :: "'a RiskFeatures_scheme \<Rightarrow> pyfloat" where
  "credit_util_penalty f = fmin (fmul (float_of_int (num_credit_lines f)) (Fin 0.05)) (Fin 1.5)"

definition age_bonus :: "'a RiskFeatures_scheme \<Rightarrow> pyfloat" where
  "age_bonus f = fmul (fneg (Fin 0.01)) (float_of_int (age f - 30))"

definition linear_score :: "'a RiskFeatures_scheme \<Rightarrow> error + pyfloat" where
  "linear_score f =
     (case dti f of
        Inl e \<Rightarrow> Inl e
      | Inr d \<Rightarrow>
          Inr (fadd (fadd (fadd (fmul (Fin 1.5) d) (payment_penalty f))
                 (credit_util_penalty f)) (age_bonus f)))"

text \<open>
  The squashing step, \<^verbatim>\<open>1 / (1 + (2.718281828)**(-linear_score))\<close>, with the base as
  the source writes it out.
\<close>

definition base_literal :: real where
  "base_literal = 2.718281828"

definition squash :: "pyfloat \<Rightarrow> error + pyfloat" where
  "squash s = fdiv (Fin 1) (fadd (Fin 1) (fpow base_literal (fneg s)))"

definition risk_prob :: "'a RiskFeatures_scheme \<Rightarrow> error + pyfloat" where
  "risk_prob f = (case linear_score f of Inl e \<Rightarrow> Inl e | Inr s \<Rightarrow> squash s)"

definition categorize :: "pyfloat \<Rightarrow> string" where
  "categorize p =
     (if flt p (Fin 0.33) then ''low''
      else if flt p (Fin 0.66) then ''medium''
      else ''high'')"

definition predict_risk :: "'a RiskFeatures_scheme \<Rightarrow> error + RiskScoreResult" where
  "predict_risk f =
     (case dti f of
        Inl e \<Rightarrow> Inl e
      | Inr d \<Rightarrow>
          (case risk_prob f of
             Inl e \<Rightarrow> Inl e
           | Inr p \<Rightarrow>
               Inr \<lparr>risk_probability = round4 p,
                    category = categorize p,
                    features = \<lparr>dti_out = round4 d, age_out = age f,
                                num_credit_lines_out = num_credit_lines f,
                                missed_payments_out = missed_payments f\<rparr>\<rparr>))"


subsection \<open>The request boundary of the scorer\<close>

text \<open>
  Modelled from the spec: the validation that FastAPI and pydantic run on the body of
  \<^verbatim>\<open>POST /api/ml/predict\<close> before they call \<^verbatim>\<open>predict_risk\<close> is library code, not
  under src/.  The constraints are those of the \<^verbatim>\<open>Field\<close> declarations of the source
  (\<^verbatim>\<open>ge=0\<close>, \<^verbatim>\<open>ge=18\<close>, \<^verbatim>\<open>le=100\<close>, checked field by field in the order of
  declaration); the response to a violation is the spec's: a client error that lists
  which field failed which constraint, the handler not being called.
\<close>

datatype constraint = GreaterThanEqual int | LessThanEqual int

type_synonym field_error = "string \<times> constraint"

definition validation_errors :: "'a RiskFeatures_scheme \<Rightarrow> field_error list" where
  "validation_errors f =
     (if fge (income f) (Fin 0) then [] else [(''income'', GreaterThanEqual 0)]) @
     (if fge (debt f) (Fin 0) then [] else [(''debt'', GreaterThanEqual 0)]) @
     (if 0 \<le> num_credit_lines f then [] else [(''num_credit_lines'', GreaterThanEqual 0)]) @
     (if 0 \<le> missed_payments f then [] else [(''missed_payments'', GreaterThanEqual 0)]) @
     (if age f < 18 then [(''age'', GreaterThanEqual 18)]
      else if 100 < age f then [(''age'', LessThanEqual 100)]
      else [])"

datatype http_response =
    Ok RiskScoreResult
  | ClientError "field_error list"
  | ServerError error

definition post_predict :: "'a RiskFeatures_scheme \<Rightarrow> http_response" where
  "post_predict f =
     (case validation_errors f of
        [] \<Rightarrow> (case predict_risk f of Inr r \<Rightarrow> Ok r | Inl e \<Rightarrow> ServerError e)
      | e # es \<Rightarrow> ClientError (e # es))"

section \<open>Strings and JSON values\<close>

text \<open>
  A Python \<^verbatim>\<open>str\<close> is a sequence of code points, and \<^verbatim>\<open>len\<close> and slicing count
  code points.  Strings that can hold any character (the status strings with their marks,
  exception messages, the keys of a JSON object) are lists of code points; the strings
  the program only writes in ASCII (category, field and variable names, the echo note)
  are HOL strings.
\<close>

type_synonym pystr = "nat list"

definition ascii :: "string \<Rightarrow> pystr" where
  "ascii s = map of_char s"

datatype json =
    JNull
  | JBool bool
  | JInt int
  | JFloat pyfloat
  | JStr pystr
  | JArray "json list"
  | JObject "(pystr \<times> json) list"

section \<open>The echo service\<close>

text \<open>
  \<^verbatim>\<open>Dict[str, Any]\<close>: a Python dict keeps its keys in insertion order and holds each key
  once, so the payload is the list of its items, and \<open>is_dict\<close> is the invariant that
  the keys are distinct.
\<close>

type_synonym pydict = "(pystr \<times> json) list"

definition is_dict :: "pydict \<Rightarrow> bool" where
  "is_dict d = distinct (map fst d)"

record EchoRequest =
  payload :: pydict

record EchoMeta =
  length_meta :: int
  keys_meta :: "pystr list"
  note_meta :: string

record EchoResult =
  received :: pydict
  meta :: EchoMeta

definition echo :: "'a EchoRequest_scheme \<Rightarrow> EchoResult" where
  "echo req =
     \<lparr>received = payload req,
      meta = \<lparr>length_meta = int (length (payload req)),
              keys_meta = map fst (payload req),
              note_meta = ''Echo service is useful for testing JSON integrations.''\<rparr>\<rparr>"

section \<open>The database probe\<close>

text \<open>
  What \<^verbatim>\<open>test_database\<close> reads from outside is made a parameter: the outcome of
  \<^verbatim>\<open>from database import db\<close>, the behaviour of the handle, and the environment.
  An exception is a value with the class its handlers test and the text of \<^verbatim>\<open>str(e)\<close>.
  The handlers tell three kinds of class apart: \<^verbatim>\<open>ImportError\<close> (and its subclasses),
  the other subclasses of \<^verbatim>\<open>Exception\<close>, and the classes that derive from
  \<^verbatim>\<open>BaseException\<close> only (\<^verbatim>\<open>SystemExit\<close>, \<^verbatim>\<open>KeyboardInterrupt\<close>,
  \<^verbatim>\<open>GeneratorExit\<close>), which \<^verbatim>\<open>except Exception\<close> does not catch.
\<close>

datatype exn_class = ImportError | Exception | BaseException

datatype exn = Exn (exn_class: exn_class) (str: pystr)

definition is_ImportError :: "exn \<Rightarrow> bool" where
  "is_ImportError e = (exn_class e = ImportError)"

definition is_Exception :: "exn \<Rightarrow> bool" where
  "is_Exception e = (exn_class e = ImportError \<or> exn_class e = Exception)"

datatype pyval = PyNone | PyStr pystr | PyObject nat

text \<open>
  The handle: \<^verbatim>\<open>hasattr(db, 'name')\<close> (which passes on any exception other than
  \<^verbatim>\<open>AttributeError\<close>), \<^verbatim>\<open>db.name\<close>, and \<^verbatim>\<open>db.list_collection_names()\<close>,
  which returns a list of names or raises.
\<close>

record db_handle =
  hasattr_name :: "exn + bool"
  name :: "exn + pyval"
  list_collection_names :: "exn + pystr list"

text \<open>
  \<open>import_db\<close> is the import statement: it raises, or binds \<^verbatim>\<open>db\<close> to
  \<^verbatim>\<open>None\<close> or to a handle.  \<open>getenv\<close> is \<^verbatim>\<open>os.getenv\<close>.
\<close>

record world =
  import_db :: "exn + db_handle option"
  getenv :: "string \<Rightarrow> pystr option"

record TestResponse =
  backend :: pystr
  database :: pystr
  database_url :: pyval
  database_name :: pyval
  connection_status :: pystr
  collections :: "pystr list"

definition check_mark :: nat where
  "check_mark = 0x2705"

definition cross_mark :: nat where
  "cross_mark = 0x274C"

definition warning_sign :: pystr where
  "warning_sign = [0x26A0, 0xFE0F]"

text \<open>The truth value of \<^verbatim>\<open>os.getenv(k)\<close>: set, and not the empty string.\<close>

definition truthy :: "pystr option \<Rightarrow> bool" where
  "truthy v = (case v of None \<Rightarrow> False | Some s \<Rightarrow> s \<noteq> [])"

text \<open>
  The inner \<^verbatim>\<open>try\<close>: the response as the block leaves it, and the exception that
  escapes it, if one does.
\<close>

definition try_listing :: "db_handle \<Rightarrow> TestResponse \<Rightarrow> TestResponse \<times> exn option" where
  "try_listing db r =
     (case list_collection_names db of
        Inr cs \<Rightarrow>
          (r\<lparr>collections := take 10 cs,
             database := check_mark # ascii '' Connected & Working''\<rparr>, None)
      | Inl e \<Rightarrow>
          if is_Exception e
          then (r\<lparr>database :=
                    warning_sign @ ascii ''  Connected but Error: '' @ take 50 (str e)\<rparr>, None)
          else (r, Some e))"

text \<open>
  The value of \<^verbatim>\<open>db.name if hasattr(db, 'name') else "..."\<close>: the test is
  evaluated first, and either evaluation can raise.
\<close>

definition name_or_connected :: "db_handle \<Rightarrow> exn + pyval" where
  "name_or_connected db =
     (case hasattr_name db of
        Inl e \<Rightarrow> Inl e
      | Inr True \<Rightarrow> name db
      | Inr False \<Rightarrow> Inr (PyStr (check_mark # ascii '' Connected'')))"

text \<open>The body of the outer \<^verbatim>\<open>try\<close>, in the same form.\<close>

definition try_probe :: "world \<Rightarrow> TestResponse \<Rightarrow> TestResponse \<times> exn option" where
  "try_probe w r =
     (case import_db w of
        Inl e \<Rightarrow> (r, Some e)
      | Inr None \<Rightarrow>
          (r\<lparr>database := warning_sign @ ascii ''  Available but not initialized''\<rparr>, None)
      | Inr (Some db) \<Rightarrow>
          (let r1 = r\<lparr>database := check_mark # ascii '' Available'',
                       database_url := PyStr (check_mark # ascii '' Configured'')\<rparr>
           in case name_or_connected db of
                Inl e \<Rightarrow> (r1, Some e)
              | Inr v \<Rightarrow>
                  try_listing db
                    (r1\<lparr>database_name := v, connection_status := ascii ''Connected''\<rparr>)))"

text \<open>The statements after the \<^verbatim>\<open>try\<close>: the two environment checks and the return.\<close>

definition check_environment :: "world \<Rightarrow> TestResponse \<Rightarrow> TestResponse" where
  "check_environment w r =
     r\<lparr>database_url :=
          PyStr (if truthy (getenv w ''DATABASE_URL'') then check_mark # ascii '' Set''
                 else cross_mark # ascii '' Not Set''),
       database_name :=
          PyStr (if truthy (getenv w ''DATABASE_NAME'') then check_mark # ascii '' Set''
                 else cross_mark # ascii '' Not Set'')\<rparr>"

definition initial_response :: TestResponse where
  "initial_response =
     \<lparr>backend = check_mark # ascii '' Running'',
      database = cross_mark # ascii '' Not Available'',
      database_url = PyNone,
      database_name = PyNone,
      connection_status = ascii ''Not Connected'',
      collections = []\<rparr>"

definition test_database :: "world \<Rightarrow> exn + TestResponse" where
  "test_database w =
     (case try_probe w initial_response of
        (r, None) \<Rightarrow> Inr (check_environment w r)
      | (r, Some e) \<Rightarrow>
          if is_ImportError e
          then Inr (check_environment w
                 (r\<lparr>database := cross_mark #
                      ascii '' Database module not found (run enable-database first)''\<rparr>))
          else if is_Exception e
          then Inr (check_environment w
                 (r\<lparr>database := cross_mark # ascii '' Error: '' @ take 50 (str e)\<rparr>))
          else Inl e)"

text \<open>
  The outcomes in which whatever the probe raises is an instance of \<^verbatim>\<open>Exception\<close>:
  the condition under which the handlers of \<^verbatim>\<open>test_database\<close> catch it.
\<close>

definition caught :: "exn + 'a \<Rightarrow> bool" where
  "caught x = (case x of Inl e \<Rightarrow> is_Exception e | Inr v \<Rightarrow> True)"


section \<open>Properties of the float operations\<close>



lemma fdiv_PInf: "fdiv x PInf = Inr (case x of Fin a \<Rightarrow> Fin 0 | PInf \<Rightarrow> NaN | NInf \<Rightarrow> NaN | NaN \<Rightarrow> NaN)"
  by (cases x) simp_all

section \<open>Properties of the risk scorer\<close>

subsection \<open>The scorer returns on every input\<close>

text \<open>
  Neither division raises: the divisor of the debt-to-income ratio is above zero when the
  branch is taken, and the divisor of the squashing step is at least one.
\<close>

lemma dti_returns: "\<exists>d. dti f = Inr d"
  by (cases "income f") (auto simp: dti_def fgt_def fdiv_PInf)

lemma squash_Fin: "squash (Fin x) = Inr (Fin (1 / (1 + base_literal powr (- x))))"
proof -
  have "0 \<le> base_literal powr (- x)" by simp
  then have "1 + base_literal powr (- x) \<noteq> 0" by linarith
  then show ?thesis by (simp add: squash_def)
qed

lemma squash_special: "squash PInf = Inr (Fin 1)" "squash NInf = Inr (Fin 0)" "squash NaN = Inr NaN"
  by (simp_all add: squash_def)

lemma squash_returns: "\<exists>p. squash s = Inr p"
  by (cases s) (simp_all add: squash_Fin squash_special)

lemma linear_score_returns: "\<exists>s. linear_score f = Inr s"
  using dti_returns [of f] by (auto simp: linear_score_def)

lemma risk_prob_returns: "\<exists>p. risk_prob f = Inr p"
  using linear_score_returns [of f] squash_returns by (auto simp: risk_prob_def)

lemma predict_risk_returns: "\<exists>r. predict_risk f = Inr r"
  using dti_returns [of f] risk_prob_returns [of f] by (auto simp: predict_risk_def)

lemma predict_risk_fields:
  "dti f = Inr d \<Longrightarrow> risk_prob f = Inr p \<Longrightarrow>
     predict_risk f =
       Inr \<lparr>risk_probability = round4 p, category = categorize p,
            features = \<lparr>dti_out = round4 d, age_out = age f,
                        num_credit_lines_out = num_credit_lines f,
                        missed_payments_out = missed_payments f\<rparr>\<rparr>"
  by (simp add: predict_risk_def)

subsection \<open>The features\<close>



lemma age_bonus_real: "age_bonus f = Fin (- 0.01 * of_int (age f - 30))"
  by (simp add: age_bonus_def float_of_int_def)


lemma dti_finite:
  "income f = Fin i \<Longrightarrow> 0 < i \<Longrightarrow> debt f = Fin d \<Longrightarrow> dti f = Inr (Fin (d / (i + 1 / 10 ^ 6)))"
  by (simp add: dti_def fgt_def)






subsection \<open>The squashing step\<close>






subsection \<open>The range of the risk probability\<close>

text \<open>
  Rounding to four places keeps a value of the unit interval in it, and the squashing
  step maps every score that is a number into it.  The score is a number unless income
  and debt are both infinite.
\<close>

lemma round_half_even_cases: "round_half_even x = \<lfloor>x\<rfloor> \<or> (round_half_even x = \<lfloor>x\<rfloor> + 1 \<and> of_int \<lfloor>x\<rfloor> < x)"
  by (auto simp: round_half_even_def Let_def)

lemma round_half_even_ge: "of_int n \<le> x \<Longrightarrow> n \<le> round_half_even x"
proof -
  assume "of_int n \<le> x"
  then have "n \<le> \<lfloor>x\<rfloor>" by (simp add: le_floor_iff)
  then show ?thesis using round_half_even_cases [of x] by auto
qed

lemma round_half_even_le: "x \<le> of_int n \<Longrightarrow> round_half_even x \<le> n"
proof -
  assume a: "x \<le> of_int n"
  then have f: "\<lfloor>x\<rfloor> \<le> n" by (simp add: floor_le_iff) 
  show ?thesis
  proof (cases "round_half_even x = \<lfloor>x\<rfloor>")
    case True then show ?thesis using f by simp
  next
    case False
    then have r: "round_half_even x = \<lfloor>x\<rfloor> + 1" and l: "of_int \<lfloor>x\<rfloor> < x"
      using round_half_even_cases [of x] by auto
    from l a have "of_int \<lfloor>x\<rfloor> < (of_int n :: real)" by linarith
    then have "\<lfloor>x\<rfloor> < n" by simp
    with r show ?thesis by simp
  qed
qed

lemma round4_unit:
  "0 \<le> x \<Longrightarrow> x \<le> 1 \<Longrightarrow> \<exists>y. round4 (Fin x) = Fin y \<and> 0 \<le> y \<and> y \<le> 1"
proof -
  assume a: "0 \<le> x" "x \<le> 1"
  have "of_int 0 \<le> x * 10 ^ 4" using a by simp
  then have l: "0 \<le> round_half_even (x * 10 ^ 4)" by (rule round_half_even_ge)
  have "x * 10 ^ 4 \<le> of_int 10000" using a by simp
  then have u: "round_half_even (x * 10 ^ 4) \<le> 10000" by (rule round_half_even_le)
  have "real_of_int (round_half_even (x * 10 ^ 4)) \<le> 10000" using u by linarith
  moreover have "0 \<le> real_of_int (round_half_even (x * 10 ^ 4))" using l by linarith
  ultimately have "0 \<le> real_of_int (round_half_even (x * 10 ^ 4)) / 10 ^ 4 \<and>
      real_of_int (round_half_even (x * 10 ^ 4)) / 10 ^ 4 \<le> 1"
    by simp
  then show ?thesis by (intro exI [of _ "real_of_int (round_half_even (x * 10 ^ 4)) / 10 ^ 4"]) simp
qed

lemma squash_unit: "s \<noteq> NaN \<Longrightarrow> \<exists>x. squash s = Inr (Fin x) \<and> 0 \<le> x \<and> x \<le> 1"
proof (cases s)
  case (Fin a)
  have "0 \<le> base_literal powr (- a)" by simp
  then have p: "1 \<le> 1 + base_literal powr (- a)" by simp
  have q: "0 \<le> 1 / q \<and> 1 / q \<le> 1" if "1 \<le> q" for q :: real
    using that by (simp add: field_simps)
  have "0 \<le> 1 / (1 + base_literal powr (- a)) \<and> 1 / (1 + base_literal powr (- a)) \<le> 1"
    by (rule q [OF p])
  moreover have "1 + base_literal powr (- a) \<noteq> 0" using p by linarith
  ultimately show ?thesis using Fin by (simp add: squash_def)
qed (simp_all add: squash_def)

lemma dti_number:
  "valid_RiskFeatures f \<Longrightarrow> \<not> (income f = PInf \<and> debt f = PInf) \<Longrightarrow>
     dti f = Inr PInf \<or> (\<exists>x. dti f = Inr (Fin x) \<and> 0 \<le> x)"
  by (cases "income f"; cases "debt f")
    (auto simp: valid_RiskFeatures_def fge_def dti_def fgt_def)

lemma linear_score_number:
  "valid_RiskFeatures f \<Longrightarrow> \<not> (income f = PInf \<and> debt f = PInf) \<Longrightarrow>
     \<exists>s. linear_score f = Inr s \<and> s \<noteq> NaN"
  using dti_number [of f]
  by (auto simp: linear_score_def payment_penalty_def credit_util_penalty_def age_bonus_def
      fmin_def float_of_int_def)

lemma risk_prob_number:
  "valid_RiskFeatures f \<Longrightarrow> \<not> (income f = PInf \<and> debt f = PInf) \<Longrightarrow>
     \<exists>x. risk_prob f = Inr (Fin x) \<and> 0 \<le> x \<and> x \<le> 1"
proof -
  assume a: "valid_RiskFeatures f" "\<not> (income f = PInf \<and> debt f = PInf)"
  obtain s where s: "linear_score f = Inr s" "s \<noteq> NaN"
    using linear_score_number [OF a] by blast
  show ?thesis using squash_unit [OF s(2)] by (simp add: risk_prob_def s)
qed

lemma risk_probability_unit_interval:
  "valid_RiskFeatures f \<Longrightarrow> \<not> (income f = PInf \<and> debt f = PInf) \<Longrightarrow>
     \<exists>r. predict_risk f = Inr r \<and>
         fle (Fin 0) (risk_probability r) \<and> fle (risk_probability r) (Fin 1)"
proof -
  assume a: "valid_RiskFeatures f" "\<not> (income f = PInf \<and> debt f = PInf)"
  obtain x where x: "risk_prob f = Inr (Fin x)" "0 \<le> x" "x \<le> 1"
    using risk_prob_number [OF a] by blast
  obtain y where y: "round4 (Fin x) = Fin y" "0 \<le> y" "y \<le> 1"
    using round4_unit [OF x(2,3)] by blast
  obtain d where d: "dti f = Inr d" using dti_returns by blast
  show ?thesis using y by (simp add: predict_risk_fields [OF d x(1)])
qed

lemma dti_inf: "dti \<lparr>income = PInf, debt = PInf, num_credit_lines = a,
     missed_payments = b, age = c\<rparr> = Inr NaN"
  by (simp add: dti_def fgt_def)

lemma risk_prob_inf: "risk_prob \<lparr>income = PInf, debt = PInf, num_credit_lines = a,
     missed_payments = b, age = c\<rparr> = Inr NaN"
  by (simp add: risk_prob_def linear_score_def dti_inf squash_special)

text \<open>
  C5: the code breaks the claim.  An infinite income and an infinite debt satisfy the
  constraints of the input; the ratio of the two is NaN, and so is the risk probability
  the scorer returns, which lies in no interval.
\<close>

theorem risk_probability_nan:
  "valid_RiskFeatures \<lparr>income = PInf, debt = PInf, num_credit_lines = 3,
     missed_payments = 2, age = 40\<rparr> \<and>
   predict_risk \<lparr>income = PInf, debt = PInf, num_credit_lines = 3,
     missed_payments = 2, age = 40\<rparr> =
     Inr \<lparr>risk_probability = NaN, category = ''high'',
          features = \<lparr>dti_out = NaN, age_out = 40, num_credit_lines_out = 3,
                      missed_payments_out = 2\<rparr>\<rparr> \<and>
   \<not> fle (Fin 0) NaN \<and> \<not> fle NaN (Fin 1)"
  by (simp add: valid_RiskFeatures_def fge_def predict_risk_fields [OF dti_inf risk_prob_inf]
      categorize_def)

subsection \<open>The category\<close>





subsection \<open>Determinism\<close>



section \<open>Properties of the request boundary\<close>

lemma validation_errors_Nil: "validation_errors f = [] \<longleftrightarrow> valid_RiskFeatures f"
  by (auto simp: validation_errors_def valid_RiskFeatures_def)

lemma post_predict_valid:
  "valid_RiskFeatures f \<Longrightarrow> \<exists>r. post_predict f = Ok r \<and> predict_risk f = Inr r"
  using predict_risk_returns [of f] validation_errors_Nil [of f]
  by (auto simp: post_predict_def)

lemma post_predict_invalid:
  "\<not> valid_RiskFeatures f \<Longrightarrow> post_predict f = ClientError (validation_errors f)"
  using validation_errors_Nil [of f]
  by (cases "validation_errors f") (simp_all add: post_predict_def)

lemma flt_not_fge: "flt x y \<Longrightarrow> \<not> fge x y"
  by (cases x; cases y) (simp_all add: fge_def)

text \<open>
  C8. When income, debt, the number of credit lines or of missed payments is negative,
  or the age is below 18 or above 100, the request ends in a client error: the list of
  errors is not empty and names each violated field with its constraint, and no result
  of the scorer is returned.  The witness has the four requests of the spec: age 17,
  age 101, income -1 and -1 missed payments.
\<close>

theorem invalid_rejected:
  "flt (income f) (Fin 0) \<or> flt (debt f) (Fin 0) \<or> num_credit_lines f < 0 \<or>
   missed_payments f < 0 \<or> age f < 18 \<or> 100 < age f \<Longrightarrow>
     \<exists>errs. post_predict f = ClientError errs \<and> errs \<noteq> [] \<and>
       (\<forall>r. post_predict f \<noteq> Ok r) \<and>
       (flt (income f) (Fin 0) \<longrightarrow> (''income'', GreaterThanEqual 0) \<in> set errs) \<and>
       (flt (debt f) (Fin 0) \<longrightarrow> (''debt'', GreaterThanEqual 0) \<in> set errs) \<and>
       (num_credit_lines f < 0 \<longrightarrow> (''num_credit_lines'', GreaterThanEqual 0) \<in> set errs) \<and>
       (missed_payments f < 0 \<longrightarrow> (''missed_payments'', GreaterThanEqual 0) \<in> set errs) \<and>
       (age f < 18 \<longrightarrow> (''age'', GreaterThanEqual 18) \<in> set errs) \<and>
       (100 < age f \<longrightarrow> (''age'', LessThanEqual 100) \<in> set errs)"
proof -
  assume a: "flt (income f) (Fin 0) \<or> flt (debt f) (Fin 0) \<or> num_credit_lines f < 0 \<or>
    missed_payments f < 0 \<or> age f < 18 \<or> 100 < age f"
  then have nv: "\<not> valid_RiskFeatures f"
    using flt_not_fge [of "income f" "Fin 0"] flt_not_fge [of "debt f" "Fin 0"]
    by (auto simp: valid_RiskFeatures_def)
  have p: "post_predict f = ClientError (validation_errors f)"
    by (rule post_predict_invalid [OF nv])
  have ne: "validation_errors f \<noteq> []" using nv by (simp add: validation_errors_Nil)
  have 1: "flt (income f) (Fin 0) \<longrightarrow> (''income'', GreaterThanEqual 0) \<in> set (validation_errors f)"
    using flt_not_fge [of "income f" "Fin 0"] by (simp add: validation_errors_def)
  have 2: "flt (debt f) (Fin 0) \<longrightarrow> (''debt'', GreaterThanEqual 0) \<in> set (validation_errors f)"
    using flt_not_fge [of "debt f" "Fin 0"] by (simp add: validation_errors_def)
  have 3: "num_credit_lines f < 0 \<longrightarrow>
      (''num_credit_lines'', GreaterThanEqual 0) \<in> set (validation_errors f)"
    by (simp add: validation_errors_def)
  have 4: "missed_payments f < 0 \<longrightarrow>
      (''missed_payments'', GreaterThanEqual 0) \<in> set (validation_errors f)"
    by (simp add: validation_errors_def)
  have 5: "age f < 18 \<longrightarrow> (''age'', GreaterThanEqual 18) \<in> set (validation_errors f)"
    by (simp add: validation_errors_def)
  have 6: "100 < age f \<longrightarrow> (''age'', LessThanEqual 100) \<in> set (validation_errors f)"
    by (simp add: validation_errors_def)
  have 7: "\<forall>r. post_predict f \<noteq> Ok r" by (simp add: p)
  from p ne 1 2 3 4 5 6 7 show ?thesis by blast
qed

theorem invalid_rejected_witness:
  "post_predict \<lparr>income = Fin 5000, debt = Fin 15000, num_credit_lines = 3,
       missed_payments = 2, age = 17\<rparr> = ClientError [(''age'', GreaterThanEqual 18)] \<and>
   post_predict \<lparr>income = Fin 5000, debt = Fin 15000, num_credit_lines = 3,
       missed_payments = 2, age = 101\<rparr> = ClientError [(''age'', LessThanEqual 100)] \<and>
   post_predict \<lparr>income = Fin (- 1), debt = Fin 15000, num_credit_lines = 3,
       missed_payments = 2, age = 30\<rparr> = ClientError [(''income'', GreaterThanEqual 0)] \<and>
   post_predict \<lparr>income = Fin 5000, debt = Fin 15000, num_credit_lines = 3,
       missed_payments = - 1, age = 30\<rparr> =
     ClientError [(''missed_payments'', GreaterThanEqual 0)]"
  using
    invalid_rejected [of "\<lparr>income = Fin 5000, debt = Fin 15000, num_credit_lines = 3,
       missed_payments = 2, age = 17\<rparr>"]
    invalid_rejected [of "\<lparr>income = Fin 5000, debt = Fin 15000, num_credit_lines = 3,
       missed_payments = 2, age = 101\<rparr>"]
    invalid_rejected [of "\<lparr>income = Fin (- 1), debt = Fin 15000, num_credit_lines = 3,
       missed_payments = 2, age = 30\<rparr>"]
    invalid_rejected [of "\<lparr>income = Fin 5000, debt = Fin 15000, num_credit_lines = 3,
       missed_payments = - 1, age = 30\<rparr>"]
  by (simp add: post_predict_def validation_errors_def fge_def)

section \<open>Properties of the echo service\<close>

text \<open>
  C7. For every dict, the result holds the payload as it came (the same items in the
  same order, so no value is changed), its length is the number of keys, its keys are
  the payload's keys in their order, and the note is the fixed string.
\<close>

theorem echo_spec:
  "is_dict (payload req) \<Longrightarrow>
     received (echo req) = payload req \<and>
     map snd (received (echo req)) = map snd (payload req) \<and>
     length_meta (meta (echo req)) = int (length (payload req)) \<and>
     length_meta (meta (echo req)) = int (card (fst ` set (payload req))) \<and>
     keys_meta (meta (echo req)) = map fst (payload req) \<and>
     note_meta (meta (echo req)) = ''Echo service is useful for testing JSON integrations.''"
proof -
  assume "is_dict (payload req)"
  then have "card (fst ` set (payload req)) = length (payload req)"
    using distinct_card [of "map fst (payload req)"] by (simp add: is_dict_def)
  then show ?thesis by (simp add: echo_def)
qed

theorem echo_spec_witness:
  "is_dict [(ascii ''a'', JInt 1), (ascii ''b'', JInt 2)] \<and>
   received (echo \<lparr>payload = [(ascii ''a'', JInt 1), (ascii ''b'', JInt 2)]\<rparr>) =
     [(ascii ''a'', JInt 1), (ascii ''b'', JInt 2)] \<and>
   length_meta (meta (echo \<lparr>payload = [(ascii ''a'', JInt 1), (ascii ''b'', JInt 2)]\<rparr>)) = 2 \<and>
   keys_meta (meta (echo \<lparr>payload = [(ascii ''a'', JInt 1), (ascii ''b'', JInt 2)]\<rparr>)) =
     [ascii ''a'', ascii ''b'']"
proof -
  have d: "is_dict (payload \<lparr>payload = [(ascii ''a'', JInt 1), (ascii ''b'', JInt 2)]\<rparr>)"
    by (simp add: is_dict_def ascii_def)
  from echo_spec [OF d] d show ?thesis by simp
qed

section \<open>Properties of the database probe\<close>

subsection \<open>The response, outcome by outcome\<close>

lemma try_listing_caught:
  "caught (list_collection_names db) \<Longrightarrow> snd (try_listing db r) = None"
  by (auto simp: try_listing_def caught_def split: sum.splits)

lemma try_listing_collections:
  "collections r = [] \<Longrightarrow> length (collections (fst (try_listing db r))) \<le> 10"
  by (auto simp: try_listing_def split: sum.splits)


lemma check_environment_fields:
  "database_url (check_environment w r) =
     PyStr (if truthy (getenv w ''DATABASE_URL'') then check_mark # ascii '' Set''
            else cross_mark # ascii '' Not Set'')"
  "database_name (check_environment w r) =
     PyStr (if truthy (getenv w ''DATABASE_NAME'') then check_mark # ascii '' Set''
            else cross_mark # ascii '' Not Set'')"
  by (simp_all add: check_environment_def)

lemma test_database_cases:
  "test_database w = Inr r' \<Longrightarrow> \<exists>r. r' = check_environment w r"
  by (auto simp: test_database_def split: prod.splits option.splits if_splits)










subsection \<open>The environment fields\<close>

text \<open>
  C10, as stated, fails.  In both environments below \<^verbatim>\<open>DATABASE_URL\<close> is set, to the
  empty string in the first, and \<^verbatim>\<open>DATABASE_NAME\<close> is not; the probe is the same.  The
  \<open>database_url\<close> field differs: the test is the truth value of \<^verbatim>\<open>os.getenv\<close>, and
  the empty string is false.
\<close>

theorem environment_counterexample:
  "getenv 
     \<lparr>import_db = Inl (Exn ImportError (ascii ''No module named database'')),
      getenv = (\<lambda>k. if k = ''DATABASE_URL'' then Some [] else None)\<rparr> ''DATABASE_URL'' \<noteq> None \<and>
   getenv 
     \<lparr>import_db = Inl (Exn ImportError (ascii ''No module named database'')),
      getenv = (\<lambda>k. if k = ''DATABASE_URL'' then Some (ascii ''x'') else None)\<rparr> ''DATABASE_URL'' \<noteq> None \<and>
   getenv 
     \<lparr>import_db = Inl (Exn ImportError (ascii ''No module named database'')),
      getenv = (\<lambda>k. if k = ''DATABASE_URL'' then Some [] else None)\<rparr> ''DATABASE_NAME'' = None \<and>
   getenv 
     \<lparr>import_db = Inl (Exn ImportError (ascii ''No module named database'')),
      getenv = (\<lambda>k. if k = ''DATABASE_URL'' then Some (ascii ''x'') else None)\<rparr> ''DATABASE_NAME'' = None \<and>
   map_sum id database_url (test_database 
     \<lparr>import_db = Inl (Exn ImportError (ascii ''No module named database'')),
      getenv = (\<lambda>k. if k = ''DATABASE_URL'' then Some [] else None)\<rparr>) = Inr (PyStr (cross_mark # ascii '' Not Set'')) \<and>
   map_sum id database_url (test_database 
     \<lparr>import_db = Inl (Exn ImportError (ascii ''No module named database'')),
      getenv = (\<lambda>k. if k = ''DATABASE_URL'' then Some (ascii ''x'') else None)\<rparr>) = Inr (PyStr (check_mark # ascii '' Set'')) \<and>
   PyStr (cross_mark # ascii '' Not Set'') \<noteq> PyStr (check_mark # ascii '' Set'')"
  by (simp add: test_database_def try_probe_def is_ImportError_def check_environment_def
      truthy_def ascii_def check_mark_def cross_mark_def)

text \<open>
  C10, amended.  In every response the \<open>database_url\<close> and \<open>database_name\<close> fields are
  the set mark when \<^verbatim>\<open>DATABASE_URL\<close>, respectively \<^verbatim>\<open>DATABASE_NAME\<close>, is set to a
  string that is not empty, and the not-set mark otherwise, whatever the probe found: the
  values the probe assigned (the name of the handle in the witness) are overwritten.
\<close>

theorem environment_fields:
  "test_database w = Inr r \<Longrightarrow>
     database_url r =
       PyStr (if truthy (getenv w ''DATABASE_URL'') then check_mark # ascii '' Set''
              else cross_mark # ascii '' Not Set'') \<and>
     database_name r =
       PyStr (if truthy (getenv w ''DATABASE_NAME'') then check_mark # ascii '' Set''
              else cross_mark # ascii '' Not Set'')"
  using test_database_cases [of w r] by (auto simp: check_environment_fields)

theorem environment_fields_witness:
  "database_url (fst (try_probe 
     \<lparr>import_db = Inr (Some \<lparr>hasattr_name = Inr True, name = Inr (PyStr (ascii ''prod'')),
        list_collection_names = Inr [ascii ''users'']\<rparr>),
      getenv = (\<lambda>k. if k = ''DATABASE_URL'' then Some (ascii ''mongodb://db'') else None)\<rparr> initial_response)) =
     PyStr (check_mark # ascii '' Configured'') \<and>
   database_name (fst (try_probe 
     \<lparr>import_db = Inr (Some \<lparr>hasattr_name = Inr True, name = Inr (PyStr (ascii ''prod'')),
        list_collection_names = Inr [ascii ''users'']\<rparr>),
      getenv = (\<lambda>k. if k = ''DATABASE_URL'' then Some (ascii ''mongodb://db'') else None)\<rparr> initial_response)) = PyStr (ascii ''prod'') \<and>
   (\<exists>r. test_database 
     \<lparr>import_db = Inr (Some \<lparr>hasattr_name = Inr True, name = Inr (PyStr (ascii ''prod'')),
        list_collection_names = Inr [ascii ''users'']\<rparr>),
      getenv = (\<lambda>k. if k = ''DATABASE_URL'' then Some (ascii ''mongodb://db'') else None)\<rparr> = Inr r \<and>
      database_url r = PyStr (check_mark # ascii '' Set'') \<and>
      database_name r = PyStr (cross_mark # ascii '' Not Set''))"
proof -
  have p: "database_url (fst (try_probe 
     \<lparr>import_db = Inr (Some \<lparr>hasattr_name = Inr True, name = Inr (PyStr (ascii ''prod'')),
        list_collection_names = Inr [ascii ''users'']\<rparr>),
      getenv = (\<lambda>k. if k = ''DATABASE_URL'' then Some (ascii ''mongodb://db'') else None)\<rparr> initial_response)) =
       PyStr (check_mark # ascii '' Configured'') \<and>
     database_name (fst (try_probe 
     \<lparr>import_db = Inr (Some \<lparr>hasattr_name = Inr True, name = Inr (PyStr (ascii ''prod'')),
        list_collection_names = Inr [ascii ''users'']\<rparr>),
      getenv = (\<lambda>k. if k = ''DATABASE_URL'' then Some (ascii ''mongodb://db'') else None)\<rparr> initial_response)) = PyStr (ascii ''prod'')"
    by (simp add: try_probe_def name_or_connected_def try_listing_def)
  obtain r where r: "test_database 
     \<lparr>import_db = Inr (Some \<lparr>hasattr_name = Inr True, name = Inr (PyStr (ascii ''prod'')),
        list_collection_names = Inr [ascii ''users'']\<rparr>),
      getenv = (\<lambda>k. if k = ''DATABASE_URL'' then Some (ascii ''mongodb://db'') else None)\<rparr> = Inr r"
    by (simp add: test_database_def try_probe_def name_or_connected_def try_listing_def)
  have t: "truthy (getenv 
     \<lparr>import_db = Inr (Some \<lparr>hasattr_name = Inr True, name = Inr (PyStr (ascii ''prod'')),
        list_collection_names = Inr [ascii ''users'']\<rparr>),
      getenv = (\<lambda>k. if k = ''DATABASE_URL'' then Some (ascii ''mongodb://db'') else None)\<rparr> ''DATABASE_URL'')" "\<not> truthy (getenv 
     \<lparr>import_db = Inr (Some \<lparr>hasattr_name = Inr True, name = Inr (PyStr (ascii ''prod'')),
        list_collection_names = Inr [ascii ''users'']\<rparr>),
      getenv = (\<lambda>k. if k = ''DATABASE_URL'' then Some (ascii ''mongodb://db'') else None)\<rparr> ''DATABASE_NAME'')"
    by (simp_all add: truthy_def ascii_def)
  from environment_fields [OF r] t p r show ?thesis by simp
qed

end
